theory Spec2Isabelle
  imports Complex_Main "HOL-Library.Word"
begin

unbundle bit_operations_syntax

section \<open>Values of the platform\<close>

text \<open>
  The live voice session of \<^verbatim>\<open>services/geminiService.ts\<close> (class \<^verbatim>\<open>LiveVoiceSession\<close>)
  is embedded function by function. JavaScript numbers that hold sample amplitudes and
  device-clock seconds are modelled as \<^typ>\<open>real\<close>: every finite float is a real, the
  products of \<^verbatim>\<open>floatTo16BitPCM\<close> (a 32-bit float times \<open>0x8000\<close> or \<open>0x7FFF\<close>) and the
  quotients of \<^verbatim>\<open>decodeAudioData\<close> (a 16-bit integer over \<open>32768\<close>) are exact in double
  precision, so the codec computes on reals what the code computes on floats. Sums of
  clock times and durations are taken exactly: the rounding of the playback cursor and
  \<open>NaN\<close> are outside the model. Typed-array elements are machine words.
\<close>

type_synonym number = real
type_synonym int16 = "16 word"
type_synonym uint8 = "8 word"

datatype js_error =
    RangeError
  | NotSupportedError
  | InvalidCharacterError
  | TypeError
  | HandlerError string

datatype jsval = Undefined | Str string | Obj "(string \<times> jsval) list"

section \<open>Codec\<close>

text \<open>
  Storing a number into an \<^verbatim>\<open>Int16Array\<close> applies the language's \<open>ToInt16\<close>: the number
  is truncated towards zero and then reduced modulo \<open>2^16\<close> into the signed range.
\<close>

definition js_trunc :: "real \<Rightarrow> int" where
  "js_trunc x = (if x < 0 then \<lceil>x\<rceil> else \<lfloor>x\<rfloor>)"

definition ToInt16 :: "real \<Rightarrow> int16" where
  "ToInt16 x = word_of_int (js_trunc x)"

text \<open>
  \<^verbatim>\<open>
  private floatTo16BitPCM(input: Float32Array) {
      const output = new Int16Array(input.length);
      for (let i = 0; i < input.length; i++) {
          const s = Math.max(-1, Math.min(1, input[i]));
          output[i] = s < 0 ? s * 0x8000 : s * 0x7FFF;
      }
      return output;
  }
  \<close>
\<close>

fun floatTo16BitPCM :: "real list \<Rightarrow> int16 list" where
  "floatTo16BitPCM [] = []"
| "floatTo16BitPCM (x # input) =
     (let s = max (- 1) (min 1 x)
      in ToInt16 (if s < 0 then s * 32768 else s * 32767) # floatTo16BitPCM input)"

text \<open>The number that the loop body stores for the sample \<open>x\<close>, before the conversion.\<close>

definition scaled :: "real \<Rightarrow> real" where
  "scaled x = (let s = max (- 1) (min 1 x) in if s < 0 then s * 32768 else s * 32767)"

text \<open>
  \<^verbatim>\<open>new Uint8Array(pcm16.buffer)\<close>: the byte view of the same memory, low byte first (the
  typed arrays use the platform's byte order, little-endian on every browser platform).
\<close>

fun Uint8Array_of_Int16Array :: "int16 list \<Rightarrow> uint8 list" where
  "Uint8Array_of_Int16Array [] = []"
| "Uint8Array_of_Int16Array (w # ws) =
     ucast w # ucast (drop_bit 8 w) # Uint8Array_of_Int16Array ws"

definition join16 :: "uint8 \<Rightarrow> uint8 \<Rightarrow> int16" where
  "join16 lo hi = ucast lo OR push_bit 8 (ucast hi)"

fun int16_elements :: "uint8 list \<Rightarrow> int16 list" where
  "int16_elements (lo # hi # bs) = join16 lo hi # int16_elements bs"
| "int16_elements bs = []"

text \<open>
  \<^verbatim>\<open>new Int16Array(data.buffer)\<close> throws a \<open>RangeError\<close> when the byte length of the buffer
  is not a multiple of the element size.
\<close>

definition new_Int16Array :: "uint8 list \<Rightarrow> js_error + int16 list" where
  "new_Int16Array buffer =
     (if length buffer mod 2 \<noteq> 0 then Inl RangeError else Inr (int16_elements buffer))"

datatype context_state = Suspended | Running | Closed

record audio_context =
  sampleRate :: nat
  currentTime :: number
  ctx_state :: context_state
  close_calls :: nat

record audio_buffer =
  channelData :: "real list"
  buffer_sampleRate :: nat

definition duration :: "audio_buffer \<Rightarrow> number" where
  "duration b = real (length (channelData b)) / real (buffer_sampleRate b)"

text \<open>
  \<^verbatim>\<open>ctx.createBuffer(1, length, rate)\<close>: one channel of silence; the platform rejects a
  length of zero frames with a \<open>NotSupportedError\<close>.
\<close>

definition createBuffer :: "audio_context \<Rightarrow> nat \<Rightarrow> nat \<Rightarrow> js_error + audio_buffer" where
  "createBuffer ctx len rate =
     (if len = 0 then Inl NotSupportedError
      else Inr \<lparr>channelData = replicate len 0, buffer_sampleRate = rate\<rparr>)"

text \<open>
  \<^verbatim>\<open>
  private async decodeAudioData(data: Uint8Array, ctx: AudioContext) {
      const dataInt16 = new Int16Array(data.buffer);
      const buffer = ctx.createBuffer(1, dataInt16.length, 24000);
      const channelData = buffer.getChannelData(0);
      for (let i = 0; i < dataInt16.length; i++) {
          channelData[i] = dataInt16[i] / 32768.0;
      }
      return buffer;
  }
  \<close>
\<close>

definition decodeAudioData :: "uint8 list \<Rightarrow> audio_context \<Rightarrow> js_error + audio_buffer" where
  "decodeAudioData data ctx =
     (case new_Int16Array data of
        Inl e \<Rightarrow> Inl e
      | Inr dataInt16 \<Rightarrow>
          (case createBuffer ctx (length dataInt16) 24000 of
             Inl e \<Rightarrow> Inl e
           | Inr buffer \<Rightarrow>
               Inr (buffer\<lparr>channelData := map (\<lambda>w. real_of_int (sint w) / 32768) dataInt16\<rparr>)))"

definition new_AudioContext :: "nat \<Rightarrow> audio_context" where
  "new_AudioContext rate =
     \<lparr>sampleRate = rate, currentTime = 0, ctx_state = Running, close_calls = 0\<rparr>"


subsection \<open>Text-safe encoding\<close>

text \<open>
  \<^verbatim>\<open>btoa\<close> and \<^verbatim>\<open>atob\<close> are functions of the platform: base64 with padding, and the
  forgiving decoder (ASCII whitespace is skipped, padding is optional, anything else
  outside the alphabet is an \<open>InvalidCharacterError\<close>). A binary string is modelled as
  the list of its character codes.
\<close>

definition base64_alphabet :: string where
  "base64_alphabet = ''ABCDEFGHIJKLMNOPQRSTUVWXYZabcdefghijklmnopqrstuvwxyz0123456789+/''"

definition b64char :: "nat \<Rightarrow> char" where
  "b64char n = base64_alphabet ! (n mod 64)"

fun btoa :: "uint8 list \<Rightarrow> string" where
  "btoa (a # b # c # bs) =
     (let n = (unat a * 256 + unat b) * 256 + unat c
      in b64char (n div 262144) # b64char (n div 4096) # b64char (n div 64) # b64char n # btoa bs)"
| "btoa [a, b] =
     (let n = (unat a * 256 + unat b) * 4
      in [b64char (n div 4096), b64char (n div 64), b64char n, CHR ''=''])"
| "btoa [a] =
     (let n = unat a * 16
      in [b64char (n div 64), b64char n, CHR ''='', CHR ''=''])"
| "btoa [] = []"

fun b64index :: "char \<Rightarrow> string \<Rightarrow> nat option" where
  "b64index c [] = None"
| "b64index c (x # xs) = (if c = x then Some 0 else map_option Suc (b64index c xs))"

definition ascii_whitespace :: "char \<Rightarrow> bool" where
  "ascii_whitespace c \<longleftrightarrow> c \<in> set [CHR 0x09, CHR 0x0A, CHR 0x0C, CHR 0x0D, CHR 0x20]"

definition remove_padding :: "string \<Rightarrow> string" where
  "remove_padding d =
     (if length d mod 4 = 0 \<and> d \<noteq> [] \<and> last d = CHR ''=''
      then (let d1 = butlast d in if d1 \<noteq> [] \<and> last d1 = CHR ''='' then butlast d1 else d1)
      else d)"

fun sextets_to_bytes :: "nat list \<Rightarrow> uint8 list" where
  "sextets_to_bytes (a # b # c # d # rest) =
     (let n = ((a * 64 + b) * 64 + c) * 64 + d
      in of_nat (n div 65536) # of_nat (n div 256) # of_nat n # sextets_to_bytes rest)"
| "sextets_to_bytes [a, b, c] =
     (let n = ((a * 64 + b) * 64 + c) div 4
      in [of_nat (n div 256), of_nat n])"
| "sextets_to_bytes [a, b] = [of_nat ((a * 64 + b) div 16)]"
| "sextets_to_bytes rest = []"

definition atob :: "string \<Rightarrow> js_error + uint8 list" where
  "atob base64 =
     (let d = remove_padding (filter (\<lambda>c. \<not> ascii_whitespace c) base64)
      in if length d mod 4 = 1 then Inl InvalidCharacterError
         else (case those (map (\<lambda>c. b64index c base64_alphabet) d) of
                 None \<Rightarrow> Inl InvalidCharacterError
               | Some sextets \<Rightarrow> Inr (sextets_to_bytes sextets)))"

text \<open>
  \<^verbatim>\<open>
  private arrayBufferToBase64(buffer: Uint8Array): string {
      let binary = '';
      const len = buffer.byteLength;
      for (let i = 0; i < len; i++) {
          binary += String.fromCharCode(buffer[i]);
      }
      return btoa(binary);
  }

  private base64ToUint8Array(base64: string) {
      const binaryString = atob(base64);
      const len = binaryString.length;
      const bytes = new Uint8Array(len);
      for (let i = 0; i < len; i++) {
          bytes[i] = binaryString.charCodeAt(i);
      }
      return bytes;
  }
  \<close>
  Both loops copy the character codes one by one, so on lists of codes they are the
  identity; an error thrown by \<^verbatim>\<open>atob\<close> passes through.
\<close>

definition arrayBufferToBase64 :: "uint8 list \<Rightarrow> string" where
  "arrayBufferToBase64 buffer = btoa buffer"

definition base64ToUint8Array :: "string \<Rightarrow> js_error + uint8 list" where
  "base64ToUint8Array base64 =
     (case atob base64 of Inl e \<Rightarrow> Inl e | Inr binaryString \<Rightarrow> Inr binaryString)"

section \<open>The session\<close>

subsection \<open>Messages of the transport\<close>

datatype client_message =
    ClientContent string bool
  | RealtimeInput string string
  | ToolResponse string string jsval

text \<open>
  \<open>ClientContent text turnComplete\<close> is one user turn with one text part;
  \<open>RealtimeInput mimeType data\<close> is a media chunk; \<open>ToolResponse id name result\<close> is a
  function response whose \<open>response\<close> is \<open>{ result }\<close>.
\<close>

record part =
  inlineData :: "string option"

record server_content =
  outputTranscription :: "string option"
  inputTranscription :: "string option"
  turnComplete :: bool
  modelTurn :: "part list option"

record function_call =
  fc_id :: string
  fc_name :: string
  fc_args :: jsval

record server_message =
  serverContent :: "server_content option"
  toolCall :: "function_call list option"

record options =
  systemInstruction :: string
  onToolCall :: "(string \<Rightarrow> jsval \<Rightarrow> js_error + jsval) option"

subsection \<open>Objects of the platform\<close>

text \<open>
  The object that the connection promise resolves to, with what was sent through it and
  how often it was closed. \<open>has_send\<close> says whether the object has the low-level
  \<^verbatim>\<open>send\<close> method that \<^verbatim>\<open>sendText\<close> probes for.
\<close>

record transport =
  has_send :: bool
  sent :: "client_message list"
  transport_close_calls :: nat

text \<open>
  The callbacks that the code registers on the connection promise with \<^verbatim>\<open>.then\<close>, one
  constructor for each place: \<^verbatim>\<open>sendText\<close>, \<^verbatim>\<open>sendImage\<close>, the capture callback, the tool
  response and the \<^verbatim>\<open>cleanup\<close> closure.
\<close>

datatype callback =
    TextTurn string
  | ImageThenNudge string
  | AudioChunk string
  | FunctionResponse string string jsval
  | CloseSession

text \<open>
  \<^verbatim>\<open>this.session\<close> holds the promise that \<^verbatim>\<open>ai.live.connect\<close> returns, not awaited. While
  the connection is opening the promise is pending and holds the callbacks registered so
  far, in the order of their registration; it settles once, fulfilled with the session
  object or rejected.
\<close>

datatype session_promise = Pending "callback list" | Fulfilled transport | Rejected

datatype settlement = Opened transport | Failed

text \<open>The microphone stream with the source and processor nodes that one connect builds.\<close>

record capture_graph =
  source_disconnect_calls :: nat
  processor_disconnect_calls :: nat
  track_stop_calls :: nat

text \<open>What the playback sink was asked to do, in order.\<close>

datatype sink_event = Start nat number audio_buffer | Stop nat

text \<open>The variables that the \<^verbatim>\<open>cleanup\<close> closure captures, as addresses of the objects.\<close>

record cleanup_closure =
  captured_graph :: nat
  captured_sessionPromise :: nat

datatype completion = Returned | Threw js_error

text \<open>
  The fields of \<^verbatim>\<open>LiveVoiceSession\<close>, then the three callbacks of its constructor as the
  log of their calls (\<open>onTranscription\<close> is optional), then the objects the session
  refers to: the connection promises and the capture graphs by address, and the playback
  sink. \<open>currentSources\<close> is a \<^verbatim>\<open>Set\<close> of source nodes: the nodes are numbered in the
  order of their creation and the set is kept in insertion order, without duplicates.
\<close>

record session_state =
  inputContext :: "audio_context option"
  outputContext :: "audio_context option"
  session :: "nat option"
  nextStartTime :: number
  currentSources :: "nat list"
  isMuted :: bool
  cleanup :: "cleanup_closure option"
  currentInputTranscription :: string
  currentOutputTranscription :: string
  onAiSpeaking :: "bool list"
  onError :: "string list"
  onTranscription :: "(string \<times> string \<times> bool) list option"
  promises :: "session_promise list"
  graphs :: "capture_graph list"
  created_sources :: nat
  sink :: "sink_event list"

definition new_LiveVoiceSession :: "bool \<Rightarrow> session_state" where
  "new_LiveVoiceSession with_onTranscription =
     \<lparr>inputContext = None, outputContext = None, session = None, nextStartTime = 0,
      currentSources = [], isMuted = True, cleanup = None,
      currentInputTranscription = [], currentOutputTranscription = [],
      onAiSpeaking = [], onError = [],
      onTranscription = (if with_onTranscription then Some [] else None),
      promises = [], graphs = [], created_sources = 0, sink = []\<rparr>"

definition send_message :: "client_message \<Rightarrow> transport \<Rightarrow> transport" where
  "send_message m s = s\<lparr>sent := sent s @ [m]\<rparr>"

definition close_transport :: "transport \<Rightarrow> transport" where
  "close_transport s = s\<lparr>transport_close_calls := transport_close_calls s + 1\<rparr>"

text \<open>
  What each callback does to the session object \<open>s\<close> it is given. The callback of
  \<^verbatim>\<open>sendImage\<close> also calls \<^verbatim>\<open>this.sendText\<close>; that part acts on the session and is
  written where the callback runs.
\<close>

fun run_callback :: "callback \<Rightarrow> transport \<Rightarrow> transport" where
  "run_callback (TextTurn text) s =
     (if has_send s then send_message (ClientContent text True) s else s)"
| "run_callback (ImageThenNudge base64Data) s =
     send_message (RealtimeInput ''image/jpeg'' base64Data) s"
| "run_callback (AudioChunk base64Data) s =
     send_message (RealtimeInput ''audio/pcm;rate=16000'' base64Data) s"
| "run_callback (FunctionResponse call_id name result) s =
     send_message (ToolResponse call_id name result) s"
| "run_callback CloseSession s = close_transport s"

text \<open>
  \<^verbatim>\<open>this.session.then(f)\<close> on the promise at the address \<open>a\<close>: a fulfilled promise runs
  the callback on its session object (as the next microtask, so in the order of the
  registrations), a pending promise holds it behind the callbacks it already holds, and a
  rejected promise never runs it.
\<close>

definition then_session :: "nat \<Rightarrow> callback \<Rightarrow> session_promise list \<Rightarrow> session_promise list" where
  "then_session a f ps =
     (if a < length ps
      then (case ps ! a of
              Pending callbacks \<Rightarrow> ps[a := Pending (callbacks @ [f])]
            | Fulfilled s \<Rightarrow> ps[a := Fulfilled (run_callback f s)]
            | Rejected \<Rightarrow> ps)
      else ps)"

definition set_add :: "nat \<Rightarrow> nat list \<Rightarrow> nat list" where
  "set_add x xs = (if x \<in> set xs then xs else xs @ [x])"

definition set_delete :: "nat \<Rightarrow> nat list \<Rightarrow> nat list" where
  "set_delete x xs = removeAll x xs"

definition resume :: "audio_context \<Rightarrow> audio_context" where
  "resume ctx = (if ctx_state ctx = Suspended then ctx\<lparr>ctx_state := Running\<rparr> else ctx)"

definition close_context :: "audio_context \<Rightarrow> audio_context" where
  "close_context ctx = ctx\<lparr>ctx_state := Closed, close_calls := close_calls ctx + 1\<rparr>"

subsection \<open>Playback\<close>

text \<open>
  \<^verbatim>\<open>
  private stopAudioOutput() {
      this.currentSources.forEach(source => {
          try { source.stop(); } catch(e) {}
      });
      this.currentSources.clear();
      this.nextStartTime = this.outputContext?.currentTime || 0;
      this.onAiSpeaking(false);
  }
  \<close>
  The sources are stopped in the insertion order of the set. \<^verbatim>\<open>x || 0\<close> is \<open>x\<close> for every
  number \<open>x\<close>, and \<open>0\<close> when there is no playback context.
\<close>

definition stopAudioOutput :: "session_state \<Rightarrow> session_state" where
  "stopAudioOutput s =
     s\<lparr>sink := sink s @ map Stop (currentSources s),
       currentSources := [],
       nextStartTime := (case outputContext s of None \<Rightarrow> 0 | Some ctx \<Rightarrow> currentTime ctx),
       onAiSpeaking := onAiSpeaking s @ [False]\<rparr>"

text \<open>
  \<^verbatim>\<open>
  private playAudioBuffer(buffer: AudioBuffer) {
      if (!this.outputContext) return;
      this.nextStartTime = Math.max(this.nextStartTime, this.outputContext.currentTime);
      const source = this.outputContext.createBufferSource();
      source.buffer = buffer;
      source.connect(this.outputContext.destination);
      source.onended = () => { ... };
      this.onAiSpeaking(true);
      source.start(this.nextStartTime);
      this.nextStartTime += buffer.duration;
      this.currentSources.add(source);
  }
  \<close>
\<close>

definition playAudioBuffer :: "audio_buffer \<Rightarrow> session_state \<Rightarrow> session_state" where
  "playAudioBuffer buffer s =
     (case outputContext s of
        None \<Rightarrow> s
      | Some ctx \<Rightarrow>
          (let startTime = max (nextStartTime s) (currentTime ctx);
               source = created_sources s
           in s\<lparr>created_sources := Suc source,
                 onAiSpeaking := onAiSpeaking s @ [True],
                 sink := sink s @ [Start source startTime buffer],
                 nextStartTime := startTime + duration buffer,
                 currentSources := set_add source (currentSources s)\<rparr>))"

text \<open>
  \<^verbatim>\<open>
  source.onended = () => {
      this.currentSources.delete(source);
      if (this.currentSources.size === 0) {
          this.onAiSpeaking(false);
      }
  };
  \<close>
\<close>

definition onended :: "nat \<Rightarrow> session_state \<Rightarrow> session_state" where
  "onended source s =
     (let remaining = set_delete source (currentSources s)
      in s\<lparr>currentSources := remaining,
            onAiSpeaking := (if length remaining = 0 then onAiSpeaking s @ [False]
                             else onAiSpeaking s)\<rparr>)"

subsection \<open>Control\<close>

text \<open>
  \<^verbatim>\<open>
  setListening(isListening: boolean) {
      this.isMuted = !isListening;
      if (isListening) {
          if (this.inputContext?.state === 'suspended') this.inputContext.resume();
          if (this.outputContext?.state === 'suspended') this.outputContext.resume();
      } else {
          this.stopAudioOutput();
      }
  }
  \<close>
\<close>

definition setListening :: "bool \<Rightarrow> session_state \<Rightarrow> session_state" where
  "setListening isListening s =
     (let s1 = s\<lparr>isMuted := \<not> isListening\<rparr>
      in if isListening
         then s1\<lparr>inputContext := map_option resume (inputContext s1),
                 outputContext := map_option resume (outputContext s1)\<rparr>
         else stopAudioOutput s1)"

text \<open>
  \<^verbatim>\<open>
  sendText(text: string) {
      if (!this.session) return;
      this.session.then((s: any) => {
          if (typeof s.send === 'function') {
              s.send({ clientContent: { turns: [{ role: 'user', parts: [{ text: text }] }],
                                        turnComplete: true } });
          }
      });
  }
  \<close>
\<close>

definition sendText :: "string \<Rightarrow> session_state \<Rightarrow> session_state" where
  "sendText text s =
     (case session s of
        None \<Rightarrow> s
      | Some a \<Rightarrow>
          s\<lparr>promises := then_session a (TextTurn text) (promises s)\<rparr>)"

text \<open>
  \<^verbatim>\<open>
  sendImage(base64Data: string) {
      if (!this.session) return;
      this.session.then((s: any) => {
          s.sendRealtimeInput({ media: { mimeType: 'image/jpeg', data: base64Data } });
          this.sendText("I just sent you a photo. ...");
      });
  }
  \<close>
\<close>

definition image_nudge :: string where
  "image_nudge = ''I just sent you a photo. Look at it, describe it excitedly to the child, and then use the drawing tool to turn it into a magic scene!''"

definition sendImage :: "string \<Rightarrow> session_state \<Rightarrow> session_state" where
  "sendImage base64Data s =
     (case session s of
        None \<Rightarrow> s
      | Some a \<Rightarrow>
          (let s1 = s\<lparr>promises := then_session a (ImageThenNudge base64Data) (promises s)\<rparr>
           in if a < length (promises s)
              then (case promises s ! a of
                      Fulfilled t \<Rightarrow> sendText image_nudge s1
                    | Pending callbacks \<Rightarrow> s1
                    | Rejected \<Rightarrow> s1)
              else s1))"

subsection \<open>Capture\<close>

text \<open>
  \<^verbatim>\<open>
  processor.onaudioprocess = (e) => {
      if (this.isMuted || !this.session) return;
      const inputData = e.inputBuffer.getChannelData(0);
      const pcm16 = this.floatTo16BitPCM(inputData);
      const uint8 = new Uint8Array(pcm16.buffer);
      const base64Data = this.arrayBufferToBase64(uint8);
      this.session.then((s: any) => {
          s.sendRealtimeInput({ media: { mimeType: 'audio/pcm;rate=16000', data: base64Data } });
      });
  };
  \<close>
\<close>

definition onaudioprocess :: "real list \<Rightarrow> session_state \<Rightarrow> session_state" where
  "onaudioprocess inputData s =
     (if isMuted s then s
      else (case session s of
              None \<Rightarrow> s
            | Some a \<Rightarrow>
                (let pcm16 = floatTo16BitPCM inputData;
                     uint8 = Uint8Array_of_Int16Array pcm16;
                     base64Data = arrayBufferToBase64 uint8
                 in s\<lparr>promises := then_session a (AudioChunk base64Data) (promises s)\<rparr>)))"

subsection \<open>Inbound messages\<close>

definition callOnTranscription :: "bool \<Rightarrow> session_state \<Rightarrow> session_state" where
  "callOnTranscription isFinal s =
     s\<lparr>onTranscription :=
         map_option
           (\<lambda>calls. calls @ [(currentInputTranscription s, currentOutputTranscription s, isFinal)])
           (onTranscription s)\<rparr>"

text \<open>
  \<^verbatim>\<open>
  const serverContent = msg.serverContent;
  if (serverContent?.outputTranscription) {
      this.currentOutputTranscription += serverContent.outputTranscription.text;
      this.onTranscription?.(this.currentInputTranscription, this.currentOutputTranscription, false);
  } else if (serverContent?.inputTranscription) {
      this.currentInputTranscription += serverContent.inputTranscription.text;
      this.onTranscription?.(this.currentInputTranscription, this.currentOutputTranscription, false);
  }
  if (serverContent?.turnComplete) {
      this.onTranscription?.(this.currentInputTranscription, this.currentOutputTranscription, true);
      this.currentInputTranscription = "";
      this.currentOutputTranscription = "";
  }
  \<close>
\<close>

definition handleFragment :: "server_message \<Rightarrow> session_state \<Rightarrow> session_state" where
  "handleFragment msg s =
     (case serverContent msg of
        None \<Rightarrow> s
      | Some sc \<Rightarrow>
          (case outputTranscription sc of
             Some text \<Rightarrow>
               callOnTranscription False
                 (s\<lparr>currentOutputTranscription := currentOutputTranscription s @ text\<rparr>)
           | None \<Rightarrow>
               (case inputTranscription sc of
                  Some text \<Rightarrow>
                    callOnTranscription False
                      (s\<lparr>currentInputTranscription := currentInputTranscription s @ text\<rparr>)
                | None \<Rightarrow> s)))"

definition handleTurnComplete :: "server_message \<Rightarrow> session_state \<Rightarrow> session_state" where
  "handleTurnComplete msg s =
     (case serverContent msg of
        None \<Rightarrow> s
      | Some sc \<Rightarrow>
          (if turnComplete sc
           then (callOnTranscription True s)
                  \<lparr>currentInputTranscription := [], currentOutputTranscription := []\<rparr>
           else s))"

definition handleTranscription :: "server_message \<Rightarrow> session_state \<Rightarrow> session_state" where
  "handleTranscription msg s = handleTurnComplete msg (handleFragment msg s)"

text \<open>
  \<^verbatim>\<open>
  const audioData = serverContent?.modelTurn?.parts?.[0]?.inlineData?.data;
  if (audioData && this.outputContext) {
      const audioBytes = this.base64ToUint8Array(audioData);
      const audioBuffer = await this.decodeAudioData(audioBytes, this.outputContext);
      this.playAudioBuffer(audioBuffer);
  }
  \<close>
  The empty string is falsy. Neither call is inside a \<^verbatim>\<open>try\<close>. The handler is modelled
  as one step: what other callbacks do while it awaits is not interleaved.
\<close>

definition audioData :: "server_message \<Rightarrow> string option" where
  "audioData msg =
     (case serverContent msg of
        None \<Rightarrow> None
      | Some sc \<Rightarrow>
          (case modelTurn sc of
             None \<Rightarrow> None
           | Some parts \<Rightarrow> (case parts of [] \<Rightarrow> None | p # ps \<Rightarrow> inlineData p)))"

definition handleAudio :: "server_message \<Rightarrow> session_state \<Rightarrow> completion \<times> session_state" where
  "handleAudio msg s =
     (case audioData msg of
        None \<Rightarrow> (Returned, s)
      | Some d \<Rightarrow>
          (if d = [] then (Returned, s)
           else (case outputContext s of
                   None \<Rightarrow> (Returned, s)
                 | Some ctx \<Rightarrow>
                     (case base64ToUint8Array d of
                        Inl e \<Rightarrow> (Threw e, s)
                      | Inr audioBytes \<Rightarrow>
                          (case decodeAudioData audioBytes ctx of
                             Inl e \<Rightarrow> (Threw e, s)
                           | Inr audioBuffer \<Rightarrow> (Returned, playAudioBuffer audioBuffer s))))))"

text \<open>
  \<^verbatim>\<open>
  if (msg.toolCall && options.onToolCall) {
     for (const fc of msg.toolCall.functionCalls) {
         const result = await options.onToolCall(fc.name, fc.args);
         this.session.then((s: any) => {
             s.sendToolResponse({ functionResponses: {
                 id: fc.id, name: fc.name, response: { result: result } } });
         });
     }
  }
  \<close>
  The handler is supplied by the caller; it returns a value or throws. The \<^verbatim>\<open>await\<close> is
  not inside a \<^verbatim>\<open>try\<close>, and \<^verbatim>\<open>this.session\<close> is read without a check.
\<close>

fun handleToolCalls ::
  "(string \<Rightarrow> jsval \<Rightarrow> js_error + jsval) \<Rightarrow> function_call list \<Rightarrow> session_state
     \<Rightarrow> completion \<times> session_state" where
  "handleToolCalls handler [] s = (Returned, s)"
| "handleToolCalls handler (fc # functionCalls) s =
     (case handler (fc_name fc) (fc_args fc) of
        Inl e \<Rightarrow> (Threw e, s)
      | Inr result \<Rightarrow>
          (case session s of
             None \<Rightarrow> (Threw TypeError, s)
           | Some a \<Rightarrow>
               handleToolCalls handler functionCalls
                 (s\<lparr>promises :=
                      then_session a (FunctionResponse (fc_id fc) (fc_name fc) result)
                        (promises s)\<rparr>)))"

definition onmessage :: "options \<Rightarrow> server_message \<Rightarrow> session_state \<Rightarrow> completion \<times> session_state" where
  "onmessage opts msg s =
     (case handleAudio msg (handleTranscription msg s) of
        (Threw e, s') \<Rightarrow> (Threw e, s')
      | (Returned, s') \<Rightarrow>
          (case toolCall msg of
             None \<Rightarrow> (Returned, s')
           | Some functionCalls \<Rightarrow>
               (case onToolCall opts of
                  None \<Rightarrow> (Returned, s')
                | Some handler \<Rightarrow> handleToolCalls handler functionCalls s')))"

text \<open>
  \<^verbatim>\<open>
  onerror: (e) => { console.error(e); this.onError("Connection error. Please restart."); }
  \<close>
\<close>

definition onerror :: "session_state \<Rightarrow> session_state" where
  "onerror s = s\<lparr>onError := onError s @ [''Connection error. Please restart.'']\<rparr>"

subsection \<open>Connect and disconnect\<close>

text \<open>
  What the platform answers during one \<^verbatim>\<open>connect\<close>: the state in which new audio
  contexts start, whether \<^verbatim>\<open>getUserMedia\<close> grants the microphone, and the promise that
  \<^verbatim>\<open>ai.live.connect\<close> returns, in the state in which the next operation finds it:
  pending while the connection is opening, or settled already. The call is modelled as
  one step.
  \<^verbatim>\<open>
  async connect(options: LiveSessionOptions) {
      try {
          this.inputContext = new AudioContext({ sampleRate: 16000 });
          this.outputContext = new AudioContext({ sampleRate: 24000 });
          const stream = await navigator.mediaDevices.getUserMedia({ audio: true });
          const source = this.inputContext.createMediaStreamSource(stream);
          const processor = this.inputContext.createScriptProcessor(4096, 1, 1);
          processor.onaudioprocess = ...;
          source.connect(processor);
          processor.connect(this.inputContext.destination);
          const sessionPromise = this.ai.live.connect({ ... });
          this.session = sessionPromise;
          this.cleanup = () => {
              source.disconnect();
              processor.disconnect();
              stream.getTracks().forEach(t => t.stop());
              this.inputContext?.close();
              this.outputContext?.close();
              sessionPromise.then(s => s.close());
          };
      } catch (error) {
          this.onError("Microphone access denied");
          console.error(error);
      }
  }
  \<close>
\<close>

record connect_env =
  initial_state :: context_state
  mic_granted :: bool
  live_connect :: session_promise

definition connect :: "connect_env \<Rightarrow> session_state \<Rightarrow> session_state" where
  "connect env s =
     (let s1 = s\<lparr>inputContext := Some ((new_AudioContext 16000)\<lparr>ctx_state := initial_state env\<rparr>),
                  outputContext := Some ((new_AudioContext 24000)\<lparr>ctx_state := initial_state env\<rparr>)\<rparr>
      in if mic_granted env
         then s1\<lparr>graphs := graphs s1 @
                     [\<lparr>source_disconnect_calls = 0, processor_disconnect_calls = 0,
                       track_stop_calls = 0\<rparr>],
                 promises := promises s1 @ [live_connect env],
                 session := Some (length (promises s1)),
                 cleanup := Some \<lparr>captured_graph = length (graphs s1),
                                  captured_sessionPromise = length (promises s1)\<rparr>\<rparr>
         else s1\<lparr>onError := onError s1 @ [''Microphone access denied'']\<rparr>)"

definition teardown_graph :: "capture_graph \<Rightarrow> capture_graph" where
  "teardown_graph g =
     g\<lparr>source_disconnect_calls := source_disconnect_calls g + 1,
       processor_disconnect_calls := processor_disconnect_calls g + 1,
       track_stop_calls := track_stop_calls g + 1\<rparr>"

definition run_cleanup :: "cleanup_closure \<Rightarrow> session_state \<Rightarrow> session_state" where
  "run_cleanup c s =
     s\<lparr>graphs := (if captured_graph c < length (graphs s)
                   then (graphs s)[captured_graph c := teardown_graph (graphs s ! captured_graph c)]
                   else graphs s),
       inputContext := map_option close_context (inputContext s),
       outputContext := map_option close_context (outputContext s),
       promises := then_session (captured_sessionPromise c) CloseSession (promises s)\<rparr>"

text \<open>
  \<^verbatim>\<open>
  disconnect() {
      this.cleanup?.();
      this.session = null;
  }
  \<close>
\<close>

definition disconnect :: "session_state \<Rightarrow> session_state" where
  "disconnect s =
     (case cleanup s of None \<Rightarrow> s | Some c \<Rightarrow> run_cleanup c s)\<lparr>session := None\<rparr>"

subsection \<open>Settling of the connection promise\<close>

text \<open>
  When a pending promise is fulfilled, the callbacks it holds run in the order of their
  registration on the session object. The callback of \<^verbatim>\<open>sendImage\<close> calls
  \<^verbatim>\<open>this.sendText\<close> while it runs; \<^verbatim>\<open>sendText\<close> reads \<^verbatim>\<open>this.session\<close> then and registers
  its own callback, which runs after the callbacks that were held. When the promise is
  rejected, the callbacks it holds never run. A settled promise does not settle again.
\<close>

fun run_callbacks :: "callback list \<Rightarrow> transport \<Rightarrow> transport" where
  "run_callbacks [] s = s"
| "run_callbacks (f # callbacks) s = run_callbacks callbacks (run_callback f s)"

fun nudges :: "callback list \<Rightarrow> session_state \<Rightarrow> session_state" where
  "nudges [] s = s"
| "nudges (ImageThenNudge base64Data # callbacks) s = nudges callbacks (sendText image_nudge s)"
| "nudges (f # callbacks) s = nudges callbacks s"

definition settle :: "nat \<Rightarrow> settlement \<Rightarrow> session_state \<Rightarrow> session_state" where
  "settle a ending s =
     (if a < length (promises s)
      then (case promises s ! a of
              Pending callbacks \<Rightarrow>
                (case ending of
                   Opened t \<Rightarrow>
                     nudges callbacks
                       (s\<lparr>promises := (promises s)[a := Fulfilled (run_callbacks callbacks t)]\<rparr>)
                 | Failed \<Rightarrow> s\<lparr>promises := (promises s)[a := Rejected]\<rparr>)
            | Fulfilled t \<Rightarrow> s
            | Rejected \<Rightarrow> s)
      else s)"

subsection \<open>Sequences of operations\<close>

text \<open>
  Everything that can happen to a session: the calls of its public methods and the
  events that the platform delivers to its callbacks. The device clock of the playback
  context advances between them, and a pending connection promise settles.
\<close>

datatype operation =
    Connect connect_env
  | SetListening bool
  | SendText string
  | SendImage string
  | Disconnect
  | AudioProcess "real list"
  | Message options server_message
  | Ended nat
  | ErrorEvent
  | ClockAdvance number
  | Settle nat settlement

definition advance_clock :: "number \<Rightarrow> session_state \<Rightarrow> session_state" where
  "advance_clock dt s =
     s\<lparr>outputContext :=
         map_option
           (\<lambda>ctx. if ctx_state ctx = Running \<and> 0 \<le> dt then ctx\<lparr>currentTime := currentTime ctx + dt\<rparr>
                  else ctx)
           (outputContext s)\<rparr>"

fun step :: "operation \<Rightarrow> session_state \<Rightarrow> completion \<times> session_state" where
  "step (Connect env) s = (Returned, connect env s)"
| "step (SetListening isListening) s = (Returned, setListening isListening s)"
| "step (SendText text) s = (Returned, sendText text s)"
| "step (SendImage base64Data) s = (Returned, sendImage base64Data s)"
| "step Disconnect s = (Returned, disconnect s)"
| "step (AudioProcess inputData) s = (Returned, onaudioprocess inputData s)"
| "step (Message opts msg) s = onmessage opts msg s"
| "step (Ended source) s = (Returned, onended source s)"
| "step ErrorEvent s = (Returned, onerror s)"
| "step (ClockAdvance dt) s = (Returned, advance_clock dt s)"
| "step (Settle a ending) s = (Returned, settle a ending s)"

text \<open>An error thrown by a callback does not undo what the callback did before.\<close>

fun run :: "operation list \<Rightarrow> session_state \<Rightarrow> session_state" where
  "run [] s = s"
| "run (operation # operations) s = run operations (snd (step operation s))"

section \<open>Notions used to state the properties\<close>

subsection \<open>Playback windows\<close>

text \<open>
  Fragments that arrive at the same instant: \<^const>\<open>playAudioBuffer\<close> for each in turn, with
  no advance of the device clock in between.
\<close>

fun play_all :: "audio_buffer list \<Rightarrow> session_state \<Rightarrow> session_state" where
  "play_all [] s = s"
| "play_all (buffer # buffers) s = play_all buffers (playAudioBuffer buffer s)"

text \<open>The playback windows that the sink was given: start time and length of each.\<close>

fun scheduled :: "sink_event list \<Rightarrow> (number \<times> number) list" where
  "scheduled [] = []"
| "scheduled (Start source startTime buffer # events) =
     (startTime, duration buffer) # scheduled events"
| "scheduled (Stop source # events) = scheduled events"

text \<open>Windows of the given lengths laid end to end from the time \<open>t\<close>.\<close>

fun cumulative :: "number \<Rightarrow> number list \<Rightarrow> (number \<times> number) list" where
  "cumulative t [] = []"
| "cumulative t (d # ds) = (t, d) # cumulative (t + d) ds"

text \<open>Each window starts exactly where the one before it ends: no gap and no overlap.\<close>

fun back_to_back :: "(number \<times> number) list \<Rightarrow> bool" where
  "back_to_back ((t, d) # (t', d') # windows) =
     (t' = t + d \<and> back_to_back ((t', d') # windows))"
| "back_to_back windows = True"

subsection \<open>Sample inputs\<close>

definition half_second :: audio_buffer where
  "half_second = \<lparr>channelData = replicate 12000 0, buffer_sampleRate = 24000\<rparr>"

definition live_env :: connect_env where
  "live_env = \<lparr>initial_state = Running, mic_granted = True,
               live_connect = Fulfilled \<lparr>has_send = True, sent = [], transport_close_calls = 0\<rparr>\<rparr>"

subsection \<open>Tool calls\<close>

text \<open>
  The responses that a request leads to when every handler result is sent back in order
  up to the first call whose handler throws, and how the handling of the request ends.
\<close>

fun responses :: "(string \<Rightarrow> jsval \<Rightarrow> js_error + jsval) \<Rightarrow> function_call list \<Rightarrow> client_message list" where
  "responses handler [] = []"
| "responses handler (fc # functionCalls) =
     (case handler (fc_name fc) (fc_args fc) of
        Inl e \<Rightarrow> []
      | Inr result \<Rightarrow> ToolResponse (fc_id fc) (fc_name fc) result # responses handler functionCalls)"

fun outcome :: "(string \<Rightarrow> jsval \<Rightarrow> js_error + jsval) \<Rightarrow> function_call list \<Rightarrow> completion" where
  "outcome handler [] = Returned"
| "outcome handler (fc # functionCalls) =
     (case handler (fc_name fc) (fc_args fc) of
        Inl e \<Rightarrow> Threw e
      | Inr result \<Rightarrow> outcome handler functionCalls)"

subsection \<open>Transcript events\<close>

text \<open>
  The aggregator as the specification words it: an input fragment is appended to the input
  buffer and an output fragment to the output buffer, each followed by a non-final
  snapshot; a turn completion emits a final snapshot and empties both buffers. A state of
  the aggregator is the two buffers and the snapshots emitted so far.
\<close>

datatype transcript_event = InputFragment string | OutputFragment string | TurnCompletion

type_synonym aggregator = "string \<times> string \<times> (string \<times> string \<times> bool) list"

fun aggregate :: "aggregator \<Rightarrow> transcript_event \<Rightarrow> aggregator" where
  "aggregate (input, output, emitted) (InputFragment fragment) =
     (input @ fragment, output, emitted @ [(input @ fragment, output, False)])"
| "aggregate (input, output, emitted) (OutputFragment fragment) =
     (input, output @ fragment, emitted @ [(input, output @ fragment, False)])"
| "aggregate (input, output, emitted) TurnCompletion =
     ([], [], emitted @ [(input, output, True)])"

definition fragments_of :: "server_content \<Rightarrow> transcript_event list" where
  "fragments_of sc =
     (case inputTranscription sc of None \<Rightarrow> [] | Some fragment \<Rightarrow> [InputFragment fragment]) @
     (case outputTranscription sc of None \<Rightarrow> [] | Some fragment \<Rightarrow> [OutputFragment fragment])"

definition events_of :: "server_message \<Rightarrow> transcript_event list" where
  "events_of msg =
     (case serverContent msg of
        None \<Rightarrow> []
      | Some sc \<Rightarrow> fragments_of sc @ (if turnComplete sc then [TurnCompletion] else []))"

definition aggregator_of :: "session_state \<Rightarrow> aggregator option" where
  "aggregator_of s =
     map_option (\<lambda>emitted. (currentInputTranscription s, currentOutputTranscription s, emitted))
       (onTranscription s)"

definition single_fragment :: "server_message \<Rightarrow> bool" where
  "single_fragment msg =
     (case serverContent msg of None \<Rightarrow> True | Some sc \<Rightarrow> length (fragments_of sc) \<le> 1)"

subsection \<open>More sample inputs\<close>

definition one_sample :: server_message where
  "one_sample =
     \<lparr>serverContent = Some \<lparr>outputTranscription = None, inputTranscription = None,
                             turnComplete = False,
                             modelTurn = Some [\<lparr>inlineData = Some ''AAA=''\<rparr>]\<rparr>,
      toolCall = None\<rparr>"

definition no_options :: options where
  "no_options = \<lparr>systemInstruction = [], onToolCall = None\<rparr>"

definition live_session :: session_state where
  "live_session = connect live_env (new_LiveVoiceSession True)"

definition odd_chunk :: server_message where
  "odd_chunk =
     \<lparr>serverContent = Some \<lparr>outputTranscription = None, inputTranscription = None,
                             turnComplete = False,
                             modelTurn = Some [\<lparr>inlineData = Some ''AA==''\<rparr>]\<rparr>,
      toolCall = Some [\<lparr>fc_id = ''call-1'', fc_name = ''draw_kid_image'',
                        fc_args = Obj [(''english_prompt'', Str ''a red car'')]\<rparr>]\<rparr>"

definition draw_handler :: "string \<Rightarrow> jsval \<Rightarrow> js_error + jsval" where
  "draw_handler name args =
     (if name = ''draw_kid_image'' then Inr (Str ''Image drawn.'') else Inr Undefined)"

definition failing_handler :: "string \<Rightarrow> jsval \<Rightarrow> js_error + jsval" where
  "failing_handler name args = Inl (HandlerError ''No image generated'')"

definition draw_request :: server_message where
  "draw_request =
     \<lparr>serverContent = None,
      toolCall = Some [\<lparr>fc_id = ''call-1'', fc_name = ''draw_kid_image'',
                        fc_args = Obj [(''english_prompt'', Str ''a red car'')]\<rparr>]\<rparr>"

definition transcript_message :: "string option \<Rightarrow> string option \<Rightarrow> bool \<Rightarrow> server_message" where
  "transcript_message input output final =
     \<lparr>serverContent = Some \<lparr>outputTranscription = output, inputTranscription = input,
                             turnComplete = final, modelTurn = None\<rparr>,
      toolCall = None\<rparr>"




definition playing :: session_state where
  "playing = run [Connect live_env, SetListening True, Message no_options one_sample, ClockAdvance (1 / 100000)]
               (new_LiveVoiceSession True)"

section \<open>Properties of the codec\<close>

lemma join16_split: "join16 (ucast w) (ucast (drop_bit 8 w)) = w"
  unfolding join16_def by (rule bit_word_eqI) (auto simp add: bit_simps)

lemma int16_elements_bytes: "int16_elements (Uint8Array_of_Int16Array ws) = ws"
  by (induction ws) (simp_all add: join16_split)

lemma length_bytes: "length (Uint8Array_of_Int16Array ws) = 2 * length ws"
  by (induction ws) simp_all

lemma length_floatTo16BitPCM: "length (floatTo16BitPCM input) = length input"
  by (induction input) (simp_all add: Let_def)

lemma sint_word_of_int16:
  "- 32768 \<le> q \<Longrightarrow> q < 32768 \<Longrightarrow> sint (word_of_int q :: int16) = q"
  by (simp add: sint_sbintrunc' signed_take_bit_int_eq_self)

lemma scaled_range: "- 32768 \<le> scaled x \<and> scaled x \<le> 32767"
  by (auto simp add: scaled_def Let_def max_def min_def)

lemma js_trunc_range:
  assumes "- 32768 \<le> y" "y \<le> 32767"
  shows "- 32768 \<le> js_trunc y \<and> js_trunc y < 32768"
proof (cases "y < 0")
  case True
  have "\<lceil>- 32768 :: real\<rceil> \<le> \<lceil>y\<rceil>" using assms(1) by (rule ceiling_mono)
  moreover have "\<lceil>y\<rceil> \<le> 0" using True by (simp add: ceiling_le_iff)
  ultimately show ?thesis using True by (simp add: js_trunc_def)
next
  case False
  have "\<lfloor>y\<rfloor> \<le> \<lfloor>32767 :: real\<rfloor>" using assms(2) by (rule floor_mono)
  moreover have "0 \<le> \<lfloor>y\<rfloor>" using False by simp
  ultimately show ?thesis using False by (simp add: js_trunc_def)
qed

lemma sint_ToInt16_scaled: "sint (ToInt16 (scaled x)) = js_trunc (scaled x)"
  unfolding ToInt16_def
  using js_trunc_range [of "scaled x"] scaled_range [of x]
  by (simp add: sint_word_of_int16)

lemma floatTo16BitPCM_map: "floatTo16BitPCM input = map (\<lambda>x. ToInt16 (scaled x)) input"
  by (induction input) (simp_all add: scaled_def Let_def)

lemma scaled_alt: "scaled s = max (- 1) (min 1 s) * (if s < 0 then 32768 else 32767)"
  by (auto simp add: scaled_def Let_def max_def min_def)

text \<open>
  Claim C4, as the code has it: every sample is clamped to \<open>[-1, 1]\<close>, scaled by \<open>32768\<close>
  when negative and by \<open>32767\<close> otherwise, and converted to a 16-bit signed integer by
  truncation towards zero. The scaled value lies within the 16-bit range, so the
  conversion never wraps.
\<close>

theorem C4_encode_truncates:
  "map sint (floatTo16BitPCM input) =
   map (\<lambda>s. js_trunc (max (- 1) (min 1 s) * (if s < 0 then 32768 else 32767))) input"
proof -
  have "map sint (floatTo16BitPCM input) = map (\<lambda>s. js_trunc (scaled s)) input"
    by (simp add: floatTo16BitPCM_map sint_ToInt16_scaled)
  then show ?thesis by (simp only: scaled_alt)
qed

text \<open>
  Claim C4 as stated asks for rounding to the nearest integer. The sample \<open>0.25\<close> scales to
  \<open>8191.75\<close>: the code stores \<open>8191\<close>, the nearest integer is \<open>8192\<close>.
\<close>

theorem C4_counterexample:
  "map sint (floatTo16BitPCM [1 / 4]) \<noteq>
   map (\<lambda>s. round (max (- 1) (min 1 s) * (if s < 0 then 32768 else 32767))) [1 / 4 :: real]"
  by (simp add: Let_def ToInt16_def js_trunc_def round_def)

text \<open>
  Claim C3 as stated bounds the round-trip error by \<open>1/32768\<close>. The sample
  \<open>65535/65536\<close> (a 32-bit float) scales to \<open>32766.5...\<close>, is stored as \<open>32766\<close> and
  decodes to \<open>16383/16384\<close>: the error is \<open>3/65536\<close>, one and a half times the bound.
\<close>

theorem C3_counterexample:
  "decodeAudioData (Uint8Array_of_Int16Array (floatTo16BitPCM [65535 / 65536])) (new_AudioContext 24000)
     = Inr \<lparr>channelData = [16383 / 16384], buffer_sampleRate = 24000\<rparr>
   \<and> \<not> \<bar>16383 / 16384 - 65535 / 65536\<bar> \<le> (1 / 32768 :: real)"
  by (simp add: Let_def ToInt16_def js_trunc_def decodeAudioData_def new_Int16Array_def
      createBuffer_def join16_def)

lemma abs_diff_less: "r - x < c \<Longrightarrow> - c < r - x \<Longrightarrow> \<bar>r - x\<bar> < (c::real)"
  by arith

lemma quantization_bound:
  assumes "- 1 \<le> x" "x \<le> 1"
  shows "\<bar>real_of_int (js_trunc (scaled x)) / 32768 - x\<bar> < 2 / 32768"
proof (cases "x < 0")
  case True
  then have sc: "scaled x = x * 32768" using assms by (simp add: scaled_def Let_def max_def min_def)
  have neg: "x * 32768 < 0" using True by simp
  have q: "js_trunc (scaled x) = \<lceil>x * 32768\<rceil>" using neg by (simp add: sc js_trunc_def)
  have a: "real_of_int \<lceil>x * 32768\<rceil> < x * 32768 + 1" by linarith
  have b: "x * 32768 \<le> real_of_int \<lceil>x * 32768\<rceil>" by linarith
  have "real_of_int \<lceil>x * 32768\<rceil> / 32768 - x < 2 / 32768" using a by linarith
  moreover have "- (2 / 32768) < real_of_int \<lceil>x * 32768\<rceil> / 32768 - x" using b by linarith
  ultimately show ?thesis unfolding q by (rule abs_diff_less)
next
  case False
  then have sc: "scaled x = x * 32767" using assms by (simp add: scaled_def Let_def max_def min_def)
  have nn: "\<not> x * 32767 < 0" using False by simp
  have q: "js_trunc (scaled x) = \<lfloor>x * 32767\<rfloor>" using nn by (simp add: sc js_trunc_def)
  have a: "x * 32767 - 1 < real_of_int \<lfloor>x * 32767\<rfloor>" by linarith
  have b: "real_of_int \<lfloor>x * 32767\<rfloor> \<le> x * 32767" by linarith
  have "real_of_int \<lfloor>x * 32767\<rfloor> / 32768 - x < 2 / 32768" using b False by linarith
  moreover have "- (2 / 32768) < real_of_int \<lfloor>x * 32767\<rfloor> / 32768 - x"
    using a assms(2) by linarith
  ultimately show ?thesis unfolding q by (rule abs_diff_less)
qed

lemma decode_encode:
  assumes "f \<noteq> []"
  shows "decodeAudioData (Uint8Array_of_Int16Array (floatTo16BitPCM f)) ctx =
         Inr \<lparr>channelData = map (\<lambda>x. real_of_int (js_trunc (scaled x)) / 32768) f,
              buffer_sampleRate = 24000\<rparr>"
proof -
  have "map (\<lambda>w. real_of_int (sint w) / 32768) (floatTo16BitPCM f) =
        map (\<lambda>x. real_of_int (js_trunc (scaled x)) / 32768) f"
    by (simp add: floatTo16BitPCM_map sint_ToInt16_scaled comp_def del: of_int_sint)
  then show ?thesis
    using assms
    by (simp add: decodeAudioData_def new_Int16Array_def length_bytes int16_elements_bytes
        createBuffer_def length_floatTo16BitPCM del: of_int_sint)
qed

text \<open>
  Claim C3, as the code has it: for every non-empty sample sequence within \<open>[-1, 1]\<close>,
  decoding the encoded bytes succeeds, yields as many samples, and every sample differs
  from the original by less than \<open>2/32768\<close>.
\<close>

theorem C3_roundtrip:
  assumes "f \<noteq> []" and "\<forall>x \<in> set f. - 1 \<le> x \<and> x \<le> 1"
  shows "\<exists>b. decodeAudioData (Uint8Array_of_Int16Array (floatTo16BitPCM f)) ctx = Inr b
           \<and> length (channelData b) = length f
           \<and> (\<forall>i < length f. \<bar>channelData b ! i - f ! i\<bar> < 2 / 32768)"
proof -
  let ?b = "\<lparr>channelData = map (\<lambda>x. real_of_int (js_trunc (scaled x)) / 32768) f,
              buffer_sampleRate = 24000\<rparr>"
  have "\<bar>channelData ?b ! i - f ! i\<bar> < 2 / 32768" if "i < length f" for i
  proof -
    have "f ! i \<in> set f" using that by simp
    then have "- 1 \<le> f ! i" "f ! i \<le> 1" using assms(2) by auto
    then show ?thesis using that quantization_bound [of "f ! i"] by simp
  qed
  then show ?thesis using decode_encode [OF assms(1), of ctx] by auto
qed

text \<open>Claim C3 at a concrete frame: the sample of the counterexample and \<open>-0.5\<close>.\<close>

theorem C3_roundtrip_witness:
  "\<exists>b. decodeAudioData (Uint8Array_of_Int16Array (floatTo16BitPCM [65535 / 65536, - 1 / 2])) (new_AudioContext 24000) = Inr b
           \<and> length (channelData b) = length [65535 / 65536, - 1 / 2 :: real]
           \<and> (\<forall>i < length [65535 / 65536, - 1 / 2 :: real]. \<bar>channelData b ! i - [65535 / 65536, - 1 / 2] ! i\<bar> < 2 / 32768)"
  by (rule C3_roundtrip) simp_all

section \<open>Properties of the playback scheduler\<close>

lemma duration_nonneg: "0 \<le> duration b"
  by (simp add: duration_def)

lemma scheduled_append: "scheduled (xs @ ys) = scheduled xs @ scheduled ys"
  by (induction xs rule: scheduled.induct) simp_all

lemma playAudioBuffer_fields:
  assumes "outputContext s = Some ctx"
  shows "nextStartTime (playAudioBuffer b s) = max (nextStartTime s) (currentTime ctx) + duration b"
    and "sink (playAudioBuffer b s) =
           sink s @ [Start (created_sources s) (max (nextStartTime s) (currentTime ctx)) b]"
    and "outputContext (playAudioBuffer b s) = Some ctx"
  using assms by (simp_all add: playAudioBuffer_def Let_def)

lemma play_all_schedule:
  assumes "outputContext s = Some ctx" "currentTime ctx \<le> nextStartTime s"
  shows "scheduled (sink (play_all bs s)) =
           scheduled (sink s) @ cumulative (nextStartTime s) (map duration bs)
         \<and> nextStartTime (play_all bs s) = nextStartTime s + sum_list (map duration bs)"
  using assms
proof (induction bs arbitrary: s)
  case Nil
  then show ?case by simp
next
  case (Cons b bs)
  let ?s = "playAudioBuffer b s"
  have m: "max (nextStartTime s) (currentTime ctx) = nextStartTime s"
    using Cons.prems(2) by simp
  have n: "nextStartTime ?s = nextStartTime s + duration b"
    using playAudioBuffer_fields(1) [OF Cons.prems(1)] m by simp
  have k: "sink ?s = sink s @ [Start (created_sources s) (nextStartTime s) b]"
    using playAudioBuffer_fields(2) [OF Cons.prems(1)] m by simp
  have c: "outputContext ?s = Some ctx"
    using playAudioBuffer_fields(3) [OF Cons.prems(1)] .
  have le: "currentTime ctx \<le> nextStartTime ?s"
    using Cons.prems(2) n duration_nonneg [of b] by linarith
  show ?case
    using Cons.IH [OF c le] by (simp add: n k scheduled_append add.assoc)
qed

lemma cumulative_back_to_back: "back_to_back (cumulative t ds)"
proof (induction ds arbitrary: t)
  case Nil
  then show ?case by simp
next
  case (Cons d ds)
  then show ?case by (cases ds) simp_all
qed

text \<open>
  Claim C1: with a playback context present, a fragment starts at
  \<open>max nextStartTime currentTime\<close> and moves the cursor to that start plus the fragment's
  duration. Hence fragments that arrive at one instant occupy windows laid end to end
  from that start (each begins where the previous one ends), and the cursor ends at the
  start plus the sum of the durations. The start is the arrival time whenever the cursor
  is not ahead of the clock, as right after connect.
\<close>

theorem C1_playback_schedule:
  assumes "outputContext s = Some ctx"
  shows "nextStartTime (playAudioBuffer b s) = max (nextStartTime s) (currentTime ctx) + duration b
       \<and> sink (playAudioBuffer b s) =
           sink s @ [Start (created_sources s) (max (nextStartTime s) (currentTime ctx)) b]
       \<and> scheduled (sink (play_all (b # bs) s)) =
           scheduled (sink s) @
           cumulative (max (nextStartTime s) (currentTime ctx)) (map duration (b # bs))
       \<and> back_to_back (cumulative (max (nextStartTime s) (currentTime ctx)) (map duration (b # bs)))
       \<and> nextStartTime (play_all (b # bs) s) =
           max (nextStartTime s) (currentTime ctx) + sum_list (map duration (b # bs))"
proof -
  let ?s = "playAudioBuffer b s"
  let ?t = "max (nextStartTime s) (currentTime ctx)"
  have n: "nextStartTime ?s = ?t + duration b"
    and k: "sink ?s = sink s @ [Start (created_sources s) ?t b]"
    and c: "outputContext ?s = Some ctx"
    using playAudioBuffer_fields [OF assms] by simp_all
  have le: "currentTime ctx \<le> nextStartTime ?s"
    using n duration_nonneg [of b] by simp
  have "scheduled (sink (play_all bs ?s)) =
          scheduled (sink ?s) @ cumulative (nextStartTime ?s) (map duration bs)
        \<and> nextStartTime (play_all bs ?s) = nextStartTime ?s + sum_list (map duration bs)"
    using play_all_schedule [OF c le] .
  then show ?thesis
    using cumulative_back_to_back [of ?t "map duration (b # bs)"]
    by (simp add: n k scheduled_append add.assoc)
qed

lemma duration_half_second: "duration half_second = 1 / 2"
  by (simp add: duration_def half_second_def)

text \<open>
  Claim C1 at its scenario: right after connect, three fragments of half a second start at
  \<open>0\<close>, \<open>0.5\<close> and \<open>1.0\<close>, and the cursor ends at \<open>1.5\<close>.
\<close>

theorem C1_playback_schedule_witness:
  "outputContext (connect live_env (new_LiveVoiceSession True)) = Some (new_AudioContext 24000)
   \<and> scheduled (sink (play_all [half_second, half_second, half_second]
                   (connect live_env (new_LiveVoiceSession True))))
       = [(0, 1 / 2), (1 / 2, 1 / 2), (1, 1 / 2)]
   \<and> nextStartTime (play_all [half_second, half_second, half_second]
                      (connect live_env (new_LiveVoiceSession True))) = 3 / 2"
proof -
  let ?s = "connect live_env (new_LiveVoiceSession True)"
  have h: "outputContext ?s = Some (new_AudioContext 24000)"
    by (simp add: connect_def live_env_def new_LiveVoiceSession_def new_AudioContext_def Let_def)
  have s0: "nextStartTime ?s = 0" "sink ?s = []" "currentTime (new_AudioContext 24000) = 0"
    by (simp_all add: connect_def live_env_def new_LiveVoiceSession_def new_AudioContext_def Let_def)
  show ?thesis
    using h C1_playback_schedule [OF h, of half_second "[half_second, half_second]"]
    by (simp add: s0 duration_half_second)
qed

section \<open>Properties of the session\<close>

lemma atob_one_sample: "atob ''AAA='' = Inr [0, 0]"
  by (simp add: atob_def remove_padding_def ascii_whitespace_def base64_alphabet_def Let_def)

lemma handleTranscription_frame:
  "nextStartTime (handleTranscription msg s) = nextStartTime s"
  "outputContext (handleTranscription msg s) = outputContext s"
  "inputContext (handleTranscription msg s) = inputContext s"
  "session (handleTranscription msg s) = session s"
  "cleanup (handleTranscription msg s) = cleanup s"
  "promises (handleTranscription msg s) = promises s"
  "graphs (handleTranscription msg s) = graphs s"
  "sink (handleTranscription msg s) = sink s"
  "currentSources (handleTranscription msg s) = currentSources s"
  "onAiSpeaking (handleTranscription msg s) = onAiSpeaking s"
  "onError (handleTranscription msg s) = onError s"
  "isMuted (handleTranscription msg s) = isMuted s"
  by (simp_all add: handleTranscription_def handleTurnComplete_def handleFragment_def
      callOnTranscription_def split: option.splits)

lemma nextStartTime_playAudioBuffer: "nextStartTime s \<le> nextStartTime (playAudioBuffer b s)"
proof (cases "outputContext s")
  case None
  then show ?thesis by (simp add: playAudioBuffer_def)
next
  case (Some ctx)
  have "0 \<le> duration b" by (simp add: duration_def)
  then show ?thesis using Some by (simp add: playAudioBuffer_def Let_def max_def)
qed

lemma nextStartTime_handleAudio: "nextStartTime s \<le> nextStartTime (snd (handleAudio msg s))"
  by (simp add: handleAudio_def nextStartTime_playAudioBuffer split: option.splits sum.splits)

lemma nextStartTime_handleToolCalls:
  "nextStartTime (snd (handleToolCalls handler fcs s)) = nextStartTime s"
  by (induction handler fcs s rule: handleToolCalls.induct)
     (simp_all split: sum.splits option.splits)

lemma nextStartTime_onmessage: "nextStartTime s \<le> nextStartTime (snd (onmessage opts msg s))"
proof -
  obtain c s' where h: "handleAudio msg (handleTranscription msg s) = (c, s')"
    by (cases "handleAudio msg (handleTranscription msg s)")
  have "nextStartTime s \<le> nextStartTime s'"
    using nextStartTime_handleAudio [of "handleTranscription msg s" msg] h
    by (simp add: handleTranscription_frame)
  then show ?thesis
    by (cases c)
       (simp_all add: onmessage_def h nextStartTime_handleToolCalls split: option.splits)
qed

lemma nextStartTime_nudges: "nextStartTime (nudges callbacks s) = nextStartTime s"
  by (induction callbacks s rule: nudges.induct)
     (simp_all add: sendText_def split: option.splits)

lemma nextStartTime_settle: "nextStartTime (settle a ending s) = nextStartTime s"
  by (simp add: settle_def nextStartTime_nudges split: session_promise.splits settlement.splits)

lemma nextStartTime_step:
  assumes "operation \<noteq> SetListening False"
  shows "nextStartTime s \<le> nextStartTime (snd (step operation s))"
proof (cases operation)
  case (Connect env)
  then show ?thesis by (simp add: connect_def Let_def)
next
  case (SetListening isListening)
  then show ?thesis using assms by (simp add: setListening_def Let_def)
next
  case (SendText msg_text)
  then show ?thesis by (simp add: sendText_def split: option.splits)
next
  case (SendImage base64Data)
  then show ?thesis
    by (simp add: sendImage_def sendText_def Let_def split: option.splits session_promise.splits)
next
  case Disconnect
  then show ?thesis by (simp add: disconnect_def run_cleanup_def split: option.splits)
next
  case (AudioProcess inputData)
  then show ?thesis by (simp add: onaudioprocess_def Let_def split: option.splits)
next
  case (Message opts msg)
  then show ?thesis by (simp add: nextStartTime_onmessage)
next
  case (Ended source)
  then show ?thesis by (simp add: onended_def Let_def)
next
  case ErrorEvent
  then show ?thesis by (simp add: onerror_def)
next
  case (ClockAdvance dt)
  then show ?thesis by (simp add: advance_clock_def)
next
  case (Settle a ending)
  then show ?thesis by (simp add: nextStartTime_settle)
qed

lemma nextStartTime_run:
  assumes "SetListening False \<notin> set operations"
  shows "nextStartTime s \<le> nextStartTime (run operations s)"
  using assms
proof (induction operations arbitrary: s)
  case Nil
  then show ?case by simp
next
  case (Cons operation operations)
  have "nextStartTime s \<le> nextStartTime (snd (step operation s))"
    using Cons.prems by (intro nextStartTime_step) auto
  moreover have "nextStartTime (snd (step operation s))
                   \<le> nextStartTime (run operations (snd (step operation s)))"
    using Cons.prems by (intro Cons.IH) auto
  ultimately show ?case by simp
qed

lemma currentSources_playAudioBuffer:
  "set (currentSources s) \<subseteq> set (currentSources (playAudioBuffer b s))"
  by (cases "outputContext s") (auto simp add: playAudioBuffer_def Let_def set_add_def)

lemma currentSources_handleAudio:
  "set (currentSources s) \<subseteq> set (currentSources (snd (handleAudio msg s)))"
  using currentSources_playAudioBuffer
  by (simp add: handleAudio_def split: option.splits sum.splits)

lemma currentSources_handleToolCalls:
  "currentSources (snd (handleToolCalls handler fcs s)) = currentSources s"
  by (induction handler fcs s rule: handleToolCalls.induct)
     (simp_all split: sum.splits option.splits)

lemma currentSources_onmessage:
  "set (currentSources s) \<subseteq> set (currentSources (snd (onmessage opts msg s)))"
proof -
  obtain c s' where h: "handleAudio msg (handleTranscription msg s) = (c, s')"
    by (cases "handleAudio msg (handleTranscription msg s)")
  have "set (currentSources s) \<subseteq> set (currentSources s')"
    using currentSources_handleAudio [of "handleTranscription msg s" msg] h
    by (simp add: handleTranscription_frame)
  then show ?thesis
    by (cases c)
       (simp_all add: onmessage_def h currentSources_handleToolCalls split: option.splits)
qed

text \<open>
  Claim C2, as the code has it: over any sequence of operations that does not mute, the
  playback cursor never decreases. Muting is the explicit stop: it stops every source in
  the active set, empties the set, resets the cursor to the clock of the playback context
  (to \<open>0\<close> when there is none) and signals that the agent stopped speaking. Disconnecting
  is not a stop: it leaves the active set, the cursor, the sink and the signals as they
  were. No inbound message removes a source from the active set.
\<close>

theorem C2_cursor_and_stop:
  "(SetListening False \<notin> set operations \<longrightarrow> nextStartTime s \<le> nextStartTime (run operations s))
   \<and> step (SetListening False) s = (Returned, stopAudioOutput (s\<lparr>isMuted := True\<rparr>))
   \<and> currentSources (stopAudioOutput s) = []
   \<and> sink (stopAudioOutput s) = sink s @ map Stop (currentSources s)
   \<and> nextStartTime (stopAudioOutput s) =
       (case outputContext s of None \<Rightarrow> 0 | Some ctx \<Rightarrow> currentTime ctx)
   \<and> onAiSpeaking (stopAudioOutput s) = onAiSpeaking s @ [False]
   \<and> currentSources (disconnect s) = currentSources s
   \<and> nextStartTime (disconnect s) = nextStartTime s
   \<and> sink (disconnect s) = sink s
   \<and> onAiSpeaking (disconnect s) = onAiSpeaking s
   \<and> set (currentSources s) \<subseteq> set (currentSources (snd (step (Message opts msg) s)))"
  using nextStartTime_run [of operations s] currentSources_onmessage [of s opts msg]
  by (simp add: setListening_def Let_def stopAudioOutput_def disconnect_def run_cleanup_def
      split: option.splits)

lemma playing_fields:
  "currentSources playing = [0]"
  "nextStartTime playing = 1 / 24000"
  "sink playing = [Start 0 0 \<lparr>channelData = [0], buffer_sampleRate = 24000\<rparr>]"
  "onAiSpeaking playing = [True]"
  "outputContext playing = Some ((new_AudioContext 24000)\<lparr>currentTime := 1 / 100000\<rparr>)"
  "cleanup playing = Some \<lparr>captured_graph = 0, captured_sessionPromise = 0\<rparr>"
  by (simp_all add: playing_def live_env_def no_options_def one_sample_def new_LiveVoiceSession_def
      connect_def setListening_def resume_def onmessage_def handleTranscription_def
      handleFragment_def handleTurnComplete_def handleAudio_def audioData_def
      base64ToUint8Array_def atob_one_sample decodeAudioData_def new_Int16Array_def
      createBuffer_def join16_def playAudioBuffer_def set_add_def duration_def
      advance_clock_def new_AudioContext_def Let_def)

text \<open>
  Claim C2 as stated counts disconnect among the explicit stops. With one fragment still
  playing, disconnect leaves its source in the active set, does not stop it, leaves the
  cursor at \<open>1/24000\<close> while the clock reads \<open>1/100000\<close>, and signals nothing.
\<close>

theorem C2_counterexample:
  "currentSources playing = [0]
   \<and> currentSources (snd (step Disconnect playing)) = [0]
   \<and> sink (snd (step Disconnect playing)) = sink playing
   \<and> nextStartTime (snd (step Disconnect playing)) = 1 / 24000
   \<and> outputContext (snd (step Disconnect playing)) =
       Some \<lparr>sampleRate = 24000, currentTime = 1 / 100000, ctx_state = Closed, close_calls = 1\<rparr>
   \<and> onAiSpeaking (snd (step Disconnect playing)) = onAiSpeaking playing"
  by (simp add: playing_fields disconnect_def run_cleanup_def close_context_def new_AudioContext_def
      split: option.splits)

text \<open>
  Claim C2 at a concrete run: connect, unmute, one fragment, a tick of the clock; then the
  stop.
\<close>

theorem C2_cursor_and_stop_witness:
  "SetListening False \<notin> set [Connect live_env, SetListening True, Message no_options one_sample,
                                ClockAdvance (1 / 100000)]
   \<and> nextStartTime (new_LiveVoiceSession True) \<le> nextStartTime playing
   \<and> currentSources (stopAudioOutput playing) = []
   \<and> sink (stopAudioOutput playing) = sink playing @ [Stop 0]
   \<and> nextStartTime (stopAudioOutput playing) = 1 / 100000"
proof -
  let ?ops = "[Connect live_env, SetListening True, Message no_options one_sample,
               ClockAdvance (1 / 100000)]"
  have a: "SetListening False \<notin> set ?ops" by simp
  have "nextStartTime (new_LiveVoiceSession True) \<le> nextStartTime (run ?ops (new_LiveVoiceSession True))"
    using a C2_cursor_and_stop [of ?ops "new_LiveVoiceSession True"] by blast
  then have b: "nextStartTime (new_LiveVoiceSession True) \<le> nextStartTime playing"
    by (simp only: playing_def)
  show ?thesis
    using a b C2_cursor_and_stop [of "[]" playing]
    by (simp add: playing_fields new_AudioContext_def)
qed

lemma live_session_eq:
  "live_session =
     \<lparr>inputContext = Some (new_AudioContext 16000), outputContext = Some (new_AudioContext 24000),
      session = Some 0, nextStartTime = 0, currentSources = [], isMuted = True,
      cleanup = Some \<lparr>captured_graph = 0, captured_sessionPromise = 0\<rparr>,
      currentInputTranscription = [], currentOutputTranscription = [],
      onAiSpeaking = [], onError = [], onTranscription = Some [],
      promises = [Fulfilled \<lparr>has_send = True, sent = [], transport_close_calls = 0\<rparr>],
      graphs = [\<lparr>source_disconnect_calls = 0, processor_disconnect_calls = 0, track_stop_calls = 0\<rparr>],
      created_sources = 0, sink = []\<rparr>"
  by (simp add: live_session_def connect_def live_env_def new_LiveVoiceSession_def new_AudioContext_def
      Let_def)

lemma then_session_fulfilled:
  "a < length ps \<Longrightarrow> ps ! a = Fulfilled t \<Longrightarrow>
   then_session a f ps = ps[a := Fulfilled (run_callback f t)]"
  by (simp add: then_session_def)

lemma odd_decode: "odd (length data) \<Longrightarrow> decodeAudioData data ctx = Inl RangeError"
  by (simp add: decodeAudioData_def new_Int16Array_def odd_iff_mod_2_eq_one)

text \<open>
  Claim C5, as the code has it: a chunk of odd byte length makes \<^const>\<open>decodeAudioData\<close>
  fail with a \<open>RangeError\<close>, never with a frame. A message that carries such a chunk is
  handled up to its transcript; nothing is scheduled and nothing else in the session
  changes, but the error is not caught: it leaves the message handler.
\<close>

theorem C5_odd_chunk:
  assumes "odd (length data)"
  shows "decodeAudioData data ctx = Inl RangeError
       \<and> (audioData msg = Some d \<and> d \<noteq> [] \<and> base64ToUint8Array d = Inr data
            \<and> outputContext s = Some ctx
          \<longrightarrow> onmessage opts msg s = (Threw RangeError, handleTranscription msg s))
       \<and> sink (handleTranscription msg s) = sink s
       \<and> currentSources (handleTranscription msg s) = currentSources s
       \<and> nextStartTime (handleTranscription msg s) = nextStartTime s
       \<and> session (handleTranscription msg s) = session s
       \<and> cleanup (handleTranscription msg s) = cleanup s
       \<and> promises (handleTranscription msg s) = promises s
       \<and> outputContext (handleTranscription msg s) = outputContext s
       \<and> inputContext (handleTranscription msg s) = inputContext s
       \<and> onError (handleTranscription msg s) = onError s"
  using assms
  by (simp add: odd_decode onmessage_def handleAudio_def handleTranscription_frame)

lemma atob_odd: "atob ''AA=='' = Inr [0]"
  by (simp add: atob_def remove_padding_def ascii_whitespace_def base64_alphabet_def Let_def)

text \<open>
  Claim C5 as stated has the codec failure contained. A message with a one-byte chunk and
  a tool call ends the handler with the \<open>RangeError\<close>; the tool call is never answered.
\<close>

theorem C5_counterexample:
  "onmessage \<lparr>systemInstruction = [], onToolCall = Some draw_handler\<rparr> odd_chunk live_session
     = (Threw RangeError, live_session)"
  by (simp add: live_session_eq onmessage_def handleAudio_def audioData_def odd_chunk_def
      handleTranscription_def handleTurnComplete_def handleFragment_def
      base64ToUint8Array_def atob_odd decodeAudioData_def new_Int16Array_def)

text \<open>
  Claim C5 at a concrete message: the chunk \<open>AA==\<close> is one byte long.
\<close>

theorem C5_odd_chunk_witness:
  "odd (length [0 :: uint8])
   \<and> decodeAudioData [0] (new_AudioContext 24000) = Inl RangeError
   \<and> onmessage no_options odd_chunk live_session = (Threw RangeError, live_session)"
proof -
  have h: "odd (length [0 :: uint8])" by simp
  have a: "audioData odd_chunk = Some ''AA=='' \<and> ''AA=='' \<noteq> []
           \<and> base64ToUint8Array ''AA=='' = Inr [0]
           \<and> outputContext live_session = Some (new_AudioContext 24000)"
    by (simp add: audioData_def odd_chunk_def base64ToUint8Array_def atob_odd live_session_eq)
  have t: "handleTranscription odd_chunk live_session = live_session"
    by (simp add: handleTranscription_def handleTurnComplete_def handleFragment_def odd_chunk_def)
  show ?thesis
    using h a C5_odd_chunk [OF h, of "new_AudioContext 24000" odd_chunk "''AA==''" live_session no_options]
    by (simp add: t)
qed

lemma handleToolCalls_sends:
  assumes "session s = Some a" "a < length (promises s)" "promises s ! a = Fulfilled t"
  shows "handleToolCalls handler fcs s =
           (outcome handler fcs,
            s\<lparr>promises := (promises s)[a := Fulfilled (t\<lparr>sent := sent t @ responses handler fcs\<rparr>)]\<rparr>)"
  using assms
proof (induction fcs arbitrary: s t)
  case Nil
  then have "(promises s)[a := Fulfilled t] = promises s"
    by (metis list_update_id)
  then show ?case by simp
next
  case (Cons fc fcs)
  show ?case
  proof (cases "handler (fc_name fc) (fc_args fc)")
    case (Inl e)
    have "(promises s)[a := Fulfilled t] = promises s"
      using Cons.prems by (metis list_update_id)
    then show ?thesis using Inl by simp
  next
    case (Inr result)
    let ?m = "ToolResponse (fc_id fc) (fc_name fc) result"
    let ?s = "s\<lparr>promises := then_session a
                 (FunctionResponse (fc_id fc) (fc_name fc) result) (promises s)\<rparr>"
    have p: "promises ?s = (promises s)[a := Fulfilled (t\<lparr>sent := sent t @ [?m]\<rparr>)]"
      using Cons.prems by (simp add: then_session_fulfilled send_message_def)
    have "handleToolCalls handler fcs ?s =
            (outcome handler fcs,
             ?s\<lparr>promises := (promises ?s)[a := Fulfilled ((t\<lparr>sent := sent t @ [?m]\<rparr>)
                                  \<lparr>sent := sent (t\<lparr>sent := sent t @ [?m]\<rparr>) @ responses handler fcs\<rparr>)]\<rparr>)"
      using Cons.prems by (intro Cons.IH) (simp_all add: p)
    then show ?thesis
      using Inr Cons.prems(1) by (simp add: p)
  qed
qed

lemma responses_all_returned:
  assumes "\<forall>fc \<in> set fcs. handler (fc_name fc) (fc_args fc) = Inr (result fc)"
  shows "responses handler fcs = map (\<lambda>fc. ToolResponse (fc_id fc) (fc_name fc) (result fc)) fcs
       \<and> outcome handler fcs = Returned"
  using assms by (induction fcs) simp_all

text \<open>
  Claim C6, as the code has it: with a live session, the responses sent are those of the
  calls up to the first one whose handler throws, each with the id and name of its call and
  the handler's result. When every handler returns, every call is answered in order and the
  handling returns. When the handler of a call throws, the error leaves the message
  handler, and neither that call nor a later one of the request is answered.
\<close>

theorem C6_tool_responses:
  assumes "session s = Some a" "a < length (promises s)" "promises s ! a = Fulfilled t"
  shows "handleToolCalls handler fcs s =
           (outcome handler fcs,
            s\<lparr>promises := (promises s)[a := Fulfilled (t\<lparr>sent := sent t @ responses handler fcs\<rparr>)]\<rparr>)
       \<and> ((\<forall>fc \<in> set fcs. handler (fc_name fc) (fc_args fc) = Inr (result fc)) \<longrightarrow>
            outcome handler fcs = Returned
            \<and> responses handler fcs =
                map (\<lambda>fc. ToolResponse (fc_id fc) (fc_name fc) (result fc)) fcs)
       \<and> (handler (fc_name fc) (fc_args fc) = Inl e \<longrightarrow>
            handleToolCalls handler (fc # rest) s = (Threw e, s))"
  using handleToolCalls_sends [OF assms, of handler fcs] responses_all_returned [of fcs handler result]
  by auto

text \<open>
  Claim C6 as stated has a failing handler answered with an error payload. With a handler
  that throws, the message handler ends with that error and nothing is sent.
\<close>

theorem C6_counterexample:
  "onmessage \<lparr>systemInstruction = [], onToolCall = Some failing_handler\<rparr> draw_request live_session
     = (Threw (HandlerError ''No image generated''), live_session)
   \<and> promises live_session = [Fulfilled \<lparr>has_send = True, sent = [], transport_close_calls = 0\<rparr>]"
  by (simp add: live_session_eq onmessage_def handleAudio_def audioData_def draw_request_def
      handleTranscription_def handleTurnComplete_def handleFragment_def failing_handler_def)

text \<open>
  Claim C6 at a concrete request, with a handler that returns.
\<close>

theorem C6_tool_responses_witness:
  "session live_session = Some 0 \<and> 0 < length (promises live_session)
   \<and> promises live_session ! 0 = Fulfilled \<lparr>has_send = True, sent = [], transport_close_calls = 0\<rparr>
   \<and> onmessage \<lparr>systemInstruction = [], onToolCall = Some draw_handler\<rparr> draw_request live_session =
       (Returned,
        live_session\<lparr>promises :=
          [Fulfilled \<lparr>has_send = True,
                      sent = [ToolResponse ''call-1'' ''draw_kid_image'' (Str ''Image drawn.'')],
                      transport_close_calls = 0\<rparr>]\<rparr>)"
proof -
  let ?t = "\<lparr>has_send = True, sent = [], transport_close_calls = 0\<rparr>"
  let ?fcs = "[\<lparr>fc_id = ''call-1'', fc_name = ''draw_kid_image'',
                fc_args = Obj [(''english_prompt'', Str ''a red car'')]\<rparr>]"
  have h: "session live_session = Some 0" "0 < length (promises live_session)"
    "promises live_session ! 0 = Fulfilled ?t"
    by (simp_all add: live_session_eq)
  have o: "onmessage \<lparr>systemInstruction = [], onToolCall = Some draw_handler\<rparr> draw_request live_session
             = handleToolCalls draw_handler ?fcs live_session"
    by (simp add: onmessage_def handleAudio_def audioData_def draw_request_def
        handleTranscription_def handleTurnComplete_def handleFragment_def)
  show ?thesis
    using h C6_tool_responses [OF h, of draw_handler ?fcs]
    by (simp add: o draw_handler_def) (simp add: live_session_eq)
qed

text \<open>
  Claim C7 at its scenario: after a successful connect, the first disconnect closes both
  audio contexts, the capture graph and the transport once; the second disconnect returns
  without an error but runs the same cleanup again, since \<^verbatim>\<open>this.cleanup\<close> is still set:
  every close count is then \<open>2\<close>.
\<close>

theorem C7_disconnect_twice:
  "step Disconnect live_session = (Returned, disconnect live_session)
   \<and> step Disconnect (disconnect live_session) = (Returned, disconnect (disconnect live_session))
   \<and> disconnect live_session =
       live_session\<lparr>inputContext := Some ((new_AudioContext 16000)\<lparr>ctx_state := Closed, close_calls := 1\<rparr>),
                 outputContext := Some ((new_AudioContext 24000)\<lparr>ctx_state := Closed, close_calls := 1\<rparr>),
                 promises := [Fulfilled \<lparr>has_send = True, sent = [], transport_close_calls = 1\<rparr>],
                 graphs := [\<lparr>source_disconnect_calls = 1, processor_disconnect_calls = 1,
                             track_stop_calls = 1\<rparr>],
                 session := None\<rparr>
   \<and> disconnect (disconnect live_session) =
       live_session\<lparr>inputContext := Some ((new_AudioContext 16000)\<lparr>ctx_state := Closed, close_calls := 2\<rparr>),
                 outputContext := Some ((new_AudioContext 24000)\<lparr>ctx_state := Closed, close_calls := 2\<rparr>),
                 promises := [Fulfilled \<lparr>has_send = True, sent = [], transport_close_calls = 2\<rparr>],
                 graphs := [\<lparr>source_disconnect_calls = 2, processor_disconnect_calls = 2,
                             track_stop_calls = 2\<rparr>],
                 session := None\<rparr>"
  by (simp add: live_session_eq disconnect_def run_cleanup_def close_context_def new_AudioContext_def
      then_session_def close_transport_def teardown_graph_def)

lemma aggregator_of_playAudioBuffer: "aggregator_of (playAudioBuffer b s) = aggregator_of s"
  by (simp add: aggregator_of_def playAudioBuffer_def Let_def split: option.splits)

lemma aggregator_of_handleAudio: "aggregator_of (snd (handleAudio msg s)) = aggregator_of s"
  by (simp add: handleAudio_def aggregator_of_playAudioBuffer split: option.splits sum.splits)

lemma aggregator_of_handleToolCalls:
  "aggregator_of (snd (handleToolCalls handler fcs s)) = aggregator_of s"
  by (induction handler fcs s rule: handleToolCalls.induct)
     (simp_all add: aggregator_of_def split: sum.splits option.splits)

lemma aggregator_of_onmessage:
  "aggregator_of (snd (onmessage opts msg s)) = aggregator_of (handleTranscription msg s)"
proof -
  obtain c s' where h: "handleAudio msg (handleTranscription msg s) = (c, s')"
    by (cases "handleAudio msg (handleTranscription msg s)")
  have "aggregator_of s' = aggregator_of (handleTranscription msg s)"
    using aggregator_of_handleAudio [of msg "handleTranscription msg s"] h by simp
  then show ?thesis
    by (cases c)
       (simp_all add: onmessage_def h aggregator_of_handleToolCalls split: option.splits)
qed

lemma aggregator_of_handleTranscription:
  assumes "aggregator_of s = Some agg" "single_fragment msg"
  shows "aggregator_of (handleTranscription msg s) = Some (foldl aggregate agg (events_of msg))"
proof (cases "serverContent msg")
  case None
  then show ?thesis
    using assms(1)
    by (simp add: handleTranscription_def handleTurnComplete_def handleFragment_def events_of_def)
next
  case (Some sc)
  obtain emitted where e: "onTranscription s = Some emitted"
    and agg: "agg = (currentInputTranscription s, currentOutputTranscription s, emitted)"
    using assms(1) by (auto simp add: aggregator_of_def)
  have one: "inputTranscription sc = None \<or> outputTranscription sc = None"
    using assms(2) Some by (auto simp add: single_fragment_def fragments_of_def split: option.splits)
  show ?thesis
    using one
    by (cases "inputTranscription sc"; cases "outputTranscription sc")
       (simp_all add: Some e agg handleTranscription_def handleTurnComplete_def handleFragment_def
         callOnTranscription_def events_of_def fragments_of_def aggregator_of_def)
qed

lemma aggregator_of_run:
  assumes "aggregator_of s = Some agg" "\<forall>msg \<in> set msgs. single_fragment msg"
  shows "aggregator_of (run (map (Message opts) msgs) s) =
           Some (foldl aggregate agg (concat (map events_of msgs)))"
  using assms
proof (induction msgs arbitrary: s agg)
  case Nil
  then show ?case by simp
next
  case (Cons msg msgs)
  have "aggregator_of (snd (onmessage opts msg s)) = Some (foldl aggregate agg (events_of msg))"
    using Cons.prems by (simp add: aggregator_of_onmessage aggregator_of_handleTranscription)
  then have "aggregator_of (run (map (Message opts) msgs) (snd (onmessage opts msg s))) =
               Some (foldl aggregate (foldl aggregate agg (events_of msg)) (concat (map events_of msgs)))"
    using Cons.prems by (intro Cons.IH) simp_all
  then show ?case by simp
qed

text \<open>
  Claim C8, as the code has it: with a transcription callback registered, and over
  messages that carry at most one transcription fragment each, the buffers and the
  emitted snapshots after handling the messages are those of the aggregator of the
  specification run over their events in arrival order.
\<close>

theorem C8_transcript_aggregation:
  assumes "aggregator_of s = Some agg" "\<forall>msg \<in> set msgs. single_fragment msg"
  shows "aggregator_of (run (map (Message opts) msgs) s) =
           Some (foldl aggregate agg (concat (map events_of msgs)))"
  using assms by (rule aggregator_of_run)

text \<open>
  Claim C8 as stated has no fragment dropped. A message that carries an input and an
  output fragment has its output fragment appended and its input fragment dropped.
\<close>

theorem C8_counterexample:
  "events_of (transcript_message (Some ''Hi'') (Some ''Hello'') False)
     = [InputFragment ''Hi'', OutputFragment ''Hello'']
   \<and> aggregator_of (snd (onmessage no_options (transcript_message (Some ''Hi'') (Some ''Hello'') False)
                           live_session))
     = Some ([], ''Hello'', [([], ''Hello'', False)])"
  by (simp add: live_session_eq transcript_message_def events_of_def fragments_of_def
      aggregator_of_def onmessage_def handleAudio_def audioData_def no_options_def
      handleTranscription_def handleTurnComplete_def handleFragment_def callOnTranscription_def)

text \<open>
  Claim C8 at a concrete conversation: an input fragment, two output fragments, the
  second with the turn completion, and an input fragment of the next turn.
\<close>

theorem C8_transcript_aggregation_witness:
  "aggregator_of live_session = Some ([], [], [])
   \<and> single_fragment (transcript_message (Some ''Hi'') None False)
   \<and> single_fragment (transcript_message None (Some ''Hel'') False)
   \<and> single_fragment (transcript_message None (Some ''lo'') True)
   \<and> single_fragment (transcript_message (Some ''Bye'') None False)
   \<and> aggregator_of
       (run (map (Message no_options)
               [transcript_message (Some ''Hi'') None False,
                transcript_message None (Some ''Hel'') False,
                transcript_message None (Some ''lo'') True,
                transcript_message (Some ''Bye'') None False]) live_session)
     = Some (''Bye'', [],
             [(''Hi'', [], False), (''Hi'', ''Hel'', False), (''Hi'', ''Hello'', False),
              (''Hi'', ''Hello'', True), (''Bye'', [], False)])"
proof -
  let ?msgs = "[transcript_message (Some ''Hi'') None False,
                transcript_message None (Some ''Hel'') False,
                transcript_message None (Some ''lo'') True,
                transcript_message (Some ''Bye'') None False]"
  have a: "aggregator_of live_session = Some ([], [], [])"
    by (simp add: aggregator_of_def live_session_eq)
  have b: "\<forall>msg \<in> set ?msgs. single_fragment msg"
    by (simp add: single_fragment_def transcript_message_def fragments_of_def)
  show ?thesis
    using a b C8_transcript_aggregation [OF a b, of no_options]
    by (simp add: events_of_def fragments_of_def transcript_message_def)
qed











text \<open>
  Claim C10: without a session handle, \<^const>\<open>sendText\<close> and \<^const>\<open>sendImage\<close> return
  without an error and leave the whole session state, sent messages included, as it was.
\<close>

theorem C10_no_session:
  assumes "session s = None"
  shows "step (SendText msg_text) s = (Returned, s) \<and> step (SendImage base64Data) s = (Returned, s)"
  using assms by (simp add: sendText_def sendImage_def)

text \<open>
  Claim C10 before connect and after disconnect.
\<close>

theorem C10_no_session_witness:
  "session (new_LiveVoiceSession True) = None
   \<and> session (disconnect live_session) = None
   \<and> step (SendText ''Hello'') (new_LiveVoiceSession True) = (Returned, new_LiveVoiceSession True)
   \<and> step (SendImage ''AAA='') (new_LiveVoiceSession True) = (Returned, new_LiveVoiceSession True)
   \<and> step (SendText ''Hello'') (disconnect live_session) = (Returned, disconnect live_session)
   \<and> step (SendImage ''AAA='') (disconnect live_session) = (Returned, disconnect live_session)"
proof -
  have a: "session (new_LiveVoiceSession True) = None"
    by (simp add: new_LiveVoiceSession_def)
  have b: "session (disconnect live_session) = None"
    by (simp add: disconnect_def split: option.splits)
  show ?thesis
    using a b C10_no_session [OF a, of "''Hello''" "''AAA=''"]
      C10_no_session [OF b, of "''Hello''" "''AAA=''"]
    by simp
qed

end
